theory Spec2Isabelle
  imports Main "HOL-Library.Word"
begin

section \<open>The DMX controller of \<^verbatim>\<open>controller.py\<close>\<close>

text \<open>
  The class \<^verbatim>\<open>DmxController\<close> keeps the list \<^verbatim>\<open>current_state\<close> of channel values, a handle
  on the serial port (or \<^verbatim>\<open>None\<close>), and reports every refusal by printing a line and
  returning. The model passes the object explicitly. Python integers are \<open>int\<close>, an optional
  argument is an \<open>option\<close>, the console is the list of the lines printed so far, and the
  serial port is a handle that records the packets written to it. A Python exception is the
  outcome \<open>Raised\<close>, paired with the object as the exception leaves it.
\<close>

datatype py_exception = IndexError | ValueError | TypeError

datatype 'a outcome = Returned 'a | Raised py_exception

text \<open>
  One constructor for each \<^verbatim>\<open>print\<close> of the class, with the values it formats. The
  class has no error values: a refusal is the printed line. The error kinds of the
  specification are read as these lines: OutOfRange is \<open>InvalidChannelOrValue\<close>,
  UnknownMode is \<open>InvalidMode\<close>, ValueOutOfRange is \<open>ValueOutOfRange\<close>,
  MissingRequiredValue is \<open>DelayRequired\<close>, \<open>NRequired\<close> or \<open>ManualRequired\<close>, and
  PreconditionNotMet is \<open>MustSetChannel\<close>.
\<close>

datatype message =
    NotConnectedError
  | InvalidChannelOrValue int int
  | SendError
  | InvalidChannelNumber int
  | InvalidMode string string "string list"
  | UsingMinimum string int int
  | UsingDefault int string int int
  | ValueOutOfRange int string int int
  | InvalidLaserNumber
  | InvalidGalleryNumber
  | NRequired
  | NOutOfRange
  | InvalidForcedColorMode
  | ExpansionOutOfRange
  | DelayRequired
  | DelayOutOfRange
  | ManualRequired string
  | ManualOutOfRange string
  | MustSetChannel int
  | DegreeOutOfRange
  | PatternValueOutOfRange
  | OnlyDefaultSupported
  | Disconnected
  | NotConnected

text \<open>
  The serial port belongs to pyserial. Of the handle the model keeps what the class can
  observe: whether \<^verbatim>\<open>write\<close> raises \<^verbatim>\<open>SerialException\<close>, and the packets written.
\<close>

record serial_handle =
  write_raises :: bool
  written :: "8 word list list"

record dmx_controller =
  num_channels :: int
  current_state :: "int list"
  serial_port :: "serial_handle option"
  console :: "message list"

definition say :: "message \<Rightarrow> dmx_controller \<Rightarrow> dmx_controller" where
  "say m s = s\<lparr>console := console s @ [m]\<rparr>"

text \<open>
  \<^verbatim>\<open>__init__\<close>: \<^verbatim>\<open>[0] * num_channels\<close> is the empty list for a negative count. Finding and
  opening the port is pyserial's work; its result is the argument \<open>handle\<close>.
\<close>

definition init :: "int \<Rightarrow> serial_handle option \<Rightarrow> dmx_controller" where
  "init n handle =
     \<lparr>num_channels = n, current_state = replicate (nat n) 0,
      serial_port = handle, console = []\<rparr>"

definition disconnect :: "dmx_controller \<Rightarrow> unit outcome \<times> dmx_controller" where
  "disconnect s =
     (case serial_port s of
        Some _ \<Rightarrow> (Returned (), (say Disconnected s)\<lparr>serial_port := None\<rparr>)
      | None \<Rightarrow> (Returned (), say NotConnected s))"

subsection \<open>Sending a packet\<close>

text \<open>
  The loop of \<^verbatim>\<open>send_dmx_packet\<close> over the items of the dictionary, in their order. An
  assignment \<^verbatim>\<open>current_state[channel - 1] = value\<close> beyond the end of the list raises
  \<^verbatim>\<open>IndexError\<close>.
\<close>

fun write_items :: "(int \<times> int) list \<Rightarrow> dmx_controller \<Rightarrow> unit outcome \<times> dmx_controller" where
  "write_items [] s = (Returned (), s)"
| "write_items ((channel, value) # rest) s =
     (if 1 \<le> channel \<and> channel \<le> num_channels s \<and> 0 \<le> value \<and> value \<le> 255 then
        (if nat (channel - 1) < length (current_state s)
         then write_items rest (s\<lparr>current_state := (current_state s)[nat (channel - 1) := value]\<rparr>)
         else (Raised IndexError, s))
      else write_items rest (say (InvalidChannelOrValue channel value) s))"

text \<open>\<^verbatim>\<open>if channel_values:\<close> skips the loop for \<^verbatim>\<open>None\<close> and for the empty dictionary.\<close>

definition update_channels ::
  "(int \<times> int) list option \<Rightarrow> dmx_controller \<Rightarrow> unit outcome \<times> dmx_controller" where
  "update_channels channel_values s =
     (case channel_values of
        None \<Rightarrow> (Returned (), s)
      | Some items \<Rightarrow> if items = [] then (Returned (), s) else write_items items s)"

text \<open>
  \<^verbatim>\<open>packet = bytearray([0x00]); packet.extend(self.current_state)\<close>: the start code, then
  one byte for each channel. \<^verbatim>\<open>extend\<close> raises \<^verbatim>\<open>ValueError\<close> on an element outside
  \<^verbatim>\<open>range(256)\<close>, which is \<open>None\<close> here.
\<close>

definition build_packet :: "int list \<Rightarrow> 8 word list option" where
  "build_packet state =
     (if list_all (\<lambda>v. 0 \<le> v \<and> v \<le> 255) state
      then Some (0 # map word_of_int state) else None)"

text \<open>\<^verbatim>\<open>serial_port.write(packet)\<close>, with its \<^verbatim>\<open>except serial.SerialException\<close>.\<close>

definition serial_write :: "8 word list \<Rightarrow> dmx_controller \<Rightarrow> dmx_controller" where
  "serial_write packet s =
     (case serial_port s of
        None \<Rightarrow> s
      | Some h \<Rightarrow>
          if write_raises h then say SendError s
          else s\<lparr>serial_port := Some (h\<lparr>written := written h @ [packet]\<rparr>)\<rparr>)"

definition send_dmx_packet ::
  "(int \<times> int) list option \<Rightarrow> dmx_controller \<Rightarrow> unit outcome \<times> dmx_controller" where
  "send_dmx_packet channel_values s =
     (case serial_port s of
        None \<Rightarrow> (Returned (), say NotConnectedError s)
      | Some _ \<Rightarrow>
          (case update_channels channel_values s of
             (Raised e, s1) \<Rightarrow> (Raised e, s1)
           | (Returned _, s1) \<Rightarrow>
               (case build_packet (current_state s1) of
                  None \<Rightarrow> (Raised ValueError, s1)
                | Some packet \<Rightarrow> (Returned (), serial_write packet s1))))"

definition set_channel :: "int \<Rightarrow> int \<Rightarrow> dmx_controller \<Rightarrow> unit outcome \<times> dmx_controller" where
  "set_channel channel value s = send_dmx_packet (Some [(channel, value)]) s"

text \<open>\<^verbatim>\<open>get_channel_value\<close> returns \<^verbatim>\<open>None\<close>, after a warning, for a channel outside 1..N.\<close>

definition get_channel_value ::
  "int \<Rightarrow> dmx_controller \<Rightarrow> int option outcome \<times> dmx_controller" where
  "get_channel_value channel s =
     (if 1 \<le> channel \<and> channel \<le> num_channels s then
        (if nat (channel - 1) < length (current_state s)
         then (Returned (Some (current_state s ! nat (channel - 1))), s)
         else (Raised IndexError, s))
      else (Returned None, say (InvalidChannelNumber channel) s))"

definition get_current_state :: "dmx_controller \<Rightarrow> int list outcome \<times> dmx_controller" where
  "get_current_state s = (Returned (current_state s), s)"

text \<open>
  The invariant of the channel array: as long as \<^verbatim>\<open>num_channels\<close> channels, every
  element a byte value.
\<close>

definition channel_invariant :: "dmx_controller \<Rightarrow> bool" where
  "channel_invariant s \<longleftrightarrow>
     int (length (current_state s)) = num_channels s \<and>
     list_all (\<lambda>v. 0 \<le> v \<and> v \<le> 255) (current_state s)"

subsection \<open>The mode tables\<close>

text \<open>
  Each method has its own dictionary \<^verbatim>\<open>modes\<close>, from a mode name to a pair of bounds.
  The dictionaries are association lists in the order of the source. In the dictionary
  of \<^verbatim>\<open>set_lamp_mode\<close> the entry of \<^verbatim>\<open>"off"\<close> is the number 0, not a pair.
\<close>

datatype lamp_value = Single int | Range int int

definition lamp_modes :: "(string \<times> lamp_value) list" where
  "lamp_modes =
     [(''off'', Single 0), (''manual'', Range 1 99), (''dynamic_sound'', Range 100 199),
      (''tune_program'', Range 200 219), (''sound_program'', Range 220 249),
      (''off_end'', Range 250 255)]"

type_synonym mode_table = "(string \<times> int \<times> int) list"

definition pattern_size_modes :: mode_table where
  "pattern_size_modes =
     [(''parts_blank'', 0, 49), (''returns'', 50, 99), (''folds'', 100, 149),
      (''crossing'', 150, 199), (''blanking'', 200, 255)]"

definition pattern_zooming_modes :: mode_table where
  "pattern_zooming_modes =
     [(''static'', 0, 127), (''zoom_in'', 128, 159), (''zoom_out'', 160, 191),
      (''flip_zooming'', 192, 255)]"

definition pattern_rotation_modes :: mode_table where
  "pattern_rotation_modes = [(''static'', 0, 127), (''dynamic_inversion'', 128, 255)]"

definition horizontal_movement_modes :: mode_table where
  "horizontal_movement_modes =
     [(''static'', 0, 127), (''push_up'', 128, 159), (''push_down'', 160, 191),
      (''left_shift'', 192, 223), (''right_shift'', 224, 255)]"

definition vertical_movement_modes :: mode_table where
  "vertical_movement_modes =
     [(''static'', 0, 127), (''right_push'', 128, 159), (''left_push'', 160, 191),
      (''move_up'', 192, 223), (''move_down'', 224, 255)]"

definition horizontal_zooming_modes :: mode_table where
  "horizontal_zooming_modes =
     [(''static'', 0, 127), (''push_up_distortion'', 128, 159),
      (''push_down_distortion'', 160, 191), (''zooming'', 192, 223),
      (''flip_zooming'', 224, 255)]"

definition vertical_zooming_modes :: mode_table where
  "vertical_zooming_modes =
     [(''static'', 0, 127), (''right_push_distortion'', 128, 159),
      (''left_push_distortion'', 160, 191), (''zoom'', 192, 223),
      (''dynamic_flip_zooming'', 224, 255)]"

definition strobe_flash_modes :: mode_table where
  "strobe_flash_modes =
     [(''off'', 0, 15), (''strobe'', 16, 131), (''random_flash'', 132, 147),
      (''sound_strobe'', 148, 199), (''sound_random_flash'', 200, 215), (''on'', 216, 255)]"

definition node_highlighting_modes :: mode_table where
  "node_highlighting_modes =
     [(''brighter'', 0, 63), (''broken_lines'', 64, 127), (''scanning_line'', 128, 223)]"

definition gradual_drawing_modes :: mode_table where
  "gradual_drawing_modes =
     [(''forward_manual'', 0, 63), (''reverse_manual'', 64, 127), (''dynamic_A'', 128, 159),
      (''dynamic_B'', 160, 191), (''dynamic_C'', 192, 223), (''dynamic_D'', 224, 255)]"

definition horizontal_flip_modes :: mode_table where
  "horizontal_flip_modes =
     [(''static'', 0, 127), (''push_up_distortion'', 128, 159),
      (''push_down_distortion'', 160, 191), (''flip'', 192, 223)]"

definition vertical_flip_modes :: mode_table where
  "vertical_flip_modes =
     [(''static'', 0, 127), (''right_push_distortion'', 128, 159),
      (''left_push_distortion'', 160, 191), (''flip'', 192, 255)]"

definition color_change_modes :: mode_table where
  "color_change_modes =
     [(''primary'', 0, 7), (''white'', 8, 15), (''red'', 16, 23), (''yellow'', 24, 31),
      (''green'', 32, 39), (''indigo'', 40, 47), (''blue'', 48, 55), (''purple'', 56, 63),
      (''rgb_cycle'', 64, 95), (''yip_cycle'', 96, 127), (''full_color_cycle'', 128, 159),
      (''colorful_change'', 160, 191), (''forward_movement'', 192, 223),
      (''reverse_movement'', 224, 255)]"

subsection \<open>The mode-setting methods\<close>

definition set_lamp_mode :: "string \<Rightarrow> dmx_controller \<Rightarrow> unit outcome \<times> dmx_controller" where
  "set_lamp_mode mode s =
     (case map_of lamp_modes mode of
        None \<Rightarrow> (Returned (), say (InvalidMode ''mode'' mode (map fst lamp_modes)) s)
      | Some (Single v) \<Rightarrow> set_channel 1 v s
      | Some (Range lo hi) \<Rightarrow> set_channel 1 lo (say (UsingMinimum mode lo hi) s))"

text \<open>
  Twelve methods share, word for word, the text that follows the choice of the channel
  and of the dictionary: the lookup of the mode, the default to \<^verbatim>\<open>mode_range[0]\<close>, the
  range check and the call of \<^verbatim>\<open>set_channel\<close>. It is written once here; \<open>label\<close> is the
  word the method prints before the invalid mode.
\<close>

definition set_range_mode ::
  "string \<Rightarrow> mode_table \<Rightarrow> int \<Rightarrow> string \<Rightarrow> int option \<Rightarrow> dmx_controller
     \<Rightarrow> unit outcome \<times> dmx_controller" where
  "set_range_mode label modes channel mode value s =
     (case map_of modes mode of
        None \<Rightarrow> (Returned (), say (InvalidMode label mode (map fst modes)) s)
      | Some (lo, hi) \<Rightarrow>
          (case value of
             None \<Rightarrow> set_channel channel lo (say (UsingDefault lo mode lo hi) s)
           | Some v \<Rightarrow>
               if \<not> (lo \<le> v \<and> v \<le> hi) then (Returned (), say (ValueOutOfRange v mode lo hi) s)
               else set_channel channel v s))"

definition set_pattern_size ::
  "int \<Rightarrow> string \<Rightarrow> int option \<Rightarrow> dmx_controller \<Rightarrow> unit outcome \<times> dmx_controller" where
  "set_pattern_size laser_num size_mode value s =
     (if laser_num \<noteq> 1 \<and> laser_num \<noteq> 2 then (Returned (), say InvalidLaserNumber s)
      else set_range_mode ''size mode'' pattern_size_modes (if laser_num = 1 then 2 else 19)
             size_mode value s)"

definition select_gallery :: "int \<Rightarrow> dmx_controller \<Rightarrow> unit outcome \<times> dmx_controller" where
  "select_gallery gallery_num s =
     (if gallery_num = 0 then set_channel 3 0 s
      else if gallery_num = 1 then set_channel 3 240 s
      else (Returned (), say InvalidGalleryNumber s))"

definition select_pattern :: "int \<Rightarrow> int \<Rightarrow> dmx_controller \<Rightarrow> unit outcome \<times> dmx_controller" where
  "select_pattern laser_num pattern_index s =
     set_channel (if laser_num = 1 then 4 else 21) pattern_index s"

definition set_pattern_zooming ::
  "int \<Rightarrow> string \<Rightarrow> int option \<Rightarrow> dmx_controller \<Rightarrow> unit outcome \<times> dmx_controller" where
  "set_pattern_zooming laser_num zoom_mode value s =
     set_range_mode ''zoom mode'' pattern_zooming_modes (if laser_num = 1 then 5 else 22)
       zoom_mode value s"

definition set_pattern_rotation ::
  "int \<Rightarrow> string \<Rightarrow> int option \<Rightarrow> dmx_controller \<Rightarrow> unit outcome \<times> dmx_controller" where
  "set_pattern_rotation laser_num rotation_mode value s =
     set_range_mode ''rotation mode'' pattern_rotation_modes (if laser_num = 1 then 6 else 23)
       rotation_mode value s"

definition set_horizontal_movement ::
  "int \<Rightarrow> string \<Rightarrow> int option \<Rightarrow> dmx_controller \<Rightarrow> unit outcome \<times> dmx_controller" where
  "set_horizontal_movement laser_num movement_mode value s =
     set_range_mode ''movement mode'' horizontal_movement_modes
       (if laser_num = 1 then 7 else 24) movement_mode value s"

definition set_vertical_movement ::
  "int \<Rightarrow> string \<Rightarrow> int option \<Rightarrow> dmx_controller \<Rightarrow> unit outcome \<times> dmx_controller" where
  "set_vertical_movement laser_num movement_mode value s =
     set_range_mode ''movement mode'' vertical_movement_modes
       (if laser_num = 1 then 8 else 25) movement_mode value s"

definition set_horizontal_zooming ::
  "string \<Rightarrow> int option \<Rightarrow> dmx_controller \<Rightarrow> unit outcome \<times> dmx_controller" where
  "set_horizontal_zooming zoom_mode value s =
     set_range_mode ''zoom mode'' horizontal_zooming_modes 9 zoom_mode value s"

definition set_vertical_zooming ::
  "string \<Rightarrow> int option \<Rightarrow> dmx_controller \<Rightarrow> unit outcome \<times> dmx_controller" where
  "set_vertical_zooming zoom_mode value s =
     set_range_mode ''zoom mode'' vertical_zooming_modes 10 zoom_mode value s"

definition set_forced_color ::
  "int \<Rightarrow> string \<Rightarrow> int option \<Rightarrow> dmx_controller \<Rightarrow> unit outcome \<times> dmx_controller" where
  "set_forced_color laser_num mode value s =
     (let channel = (if laser_num = 1 then 11 else 28) in
      if mode = ''primary'' then set_channel channel 0 s
      else if mode = ''change_every_n'' then
        (case value of
           None \<Rightarrow> (Returned (), say NRequired s)
         | Some v \<Rightarrow>
             if \<not> (1 \<le> v \<and> v \<le> 255) then (Returned (), say NOutOfRange s)
             else set_channel channel v s)
      else (Returned (), say InvalidForcedColorMode s))"

definition set_strobe_flash ::
  "string \<Rightarrow> int option \<Rightarrow> dmx_controller \<Rightarrow> unit outcome \<times> dmx_controller" where
  "set_strobe_flash mode value s = set_range_mode ''mode'' strobe_flash_modes 12 mode value s"

definition set_node_highlighting ::
  "int \<Rightarrow> string \<Rightarrow> int option \<Rightarrow> dmx_controller \<Rightarrow> unit outcome \<times> dmx_controller" where
  "set_node_highlighting laser_num mode value s =
     set_range_mode ''mode'' node_highlighting_modes (if laser_num = 1 then 13 else 30)
       mode value s"

text \<open>
  \<^verbatim>\<open>set_node_expansion\<close> compares the result of \<^verbatim>\<open>get_channel_value\<close> with 128; when the
  companion channel is outside 1..N that result is \<^verbatim>\<open>None\<close> and the comparison raises
  \<^verbatim>\<open>TypeError\<close>.
\<close>

definition set_node_expansion ::
  "int \<Rightarrow> int \<Rightarrow> int option \<Rightarrow> dmx_controller \<Rightarrow> unit outcome \<times> dmx_controller" where
  "set_node_expansion laser_num expansion_value delay_value s =
     (let channel = (if laser_num = 1 then 14 else 31) in
      if \<not> (0 \<le> expansion_value \<and> expansion_value \<le> 255)
      then (Returned (), say ExpansionOutOfRange s)
      else
        (case get_channel_value (if laser_num = 1 then 15 else 32) s of
           (Raised e, s1) \<Rightarrow> (Raised e, s1)
         | (Returned None, s1) \<Rightarrow> (Raised TypeError, s1)
         | (Returned (Some companion), s1) \<Rightarrow>
             if companion \<ge> 128 then
               (case delay_value of
                  None \<Rightarrow> (Returned (), say DelayRequired s1)
                | Some d \<Rightarrow>
                    if \<not> (0 \<le> d \<and> d \<le> 255) then (Returned (), say DelayOutOfRange s1)
                    else set_channel channel d s1)
             else set_channel channel expansion_value s1))"

text \<open>
  \<^verbatim>\<open>set_gradual_drawing\<close> tests \<^verbatim>\<open>get_channel_value(14) == 0\<close>, which is false for
  \<^verbatim>\<open>None\<close>; a laser number other than 1 and 2 skips the test.
\<close>

definition expansion_check ::
  "int \<Rightarrow> int \<Rightarrow> int \<Rightarrow> dmx_controller \<Rightarrow> unit outcome \<times> dmx_controller" where
  "expansion_check companion channel manual_expansion_value s =
     (case get_channel_value companion s of
        (Raised e, s1) \<Rightarrow> (Raised e, s1)
      | (Returned got, s1) \<Rightarrow>
          if got = Some 0 then (Returned (), say (MustSetChannel companion) s1)
          else set_channel channel manual_expansion_value s1)"

definition set_gradual_drawing ::
  "int \<Rightarrow> string \<Rightarrow> int option \<Rightarrow> dmx_controller \<Rightarrow> unit outcome \<times> dmx_controller" where
  "set_gradual_drawing laser_num mode manual_expansion_value s =
     (let channel = (if laser_num = 1 then 15 else 32) in
      case map_of gradual_drawing_modes mode of
        None \<Rightarrow> (Returned (), say (InvalidMode ''mode'' mode (map fst gradual_drawing_modes)) s)
      | Some (lo, hi) \<Rightarrow>
          if mode = ''forward_manual'' \<or> mode = ''reverse_manual'' then
            (case manual_expansion_value of
               None \<Rightarrow> (Returned (), say (ManualRequired mode) s)
             | Some m \<Rightarrow>
                 if \<not> (0 \<le> m \<and> m \<le> (if mode = ''forward_manual'' then 127 else 63))
                 then (Returned (), say (ManualOutOfRange mode) s)
                 else if laser_num = 1 then expansion_check 14 channel m s
                 else if laser_num = 2 then expansion_check 31 channel m s
                 else set_channel channel m s)
          else set_channel channel lo s)"

definition set_distortion_degree ::
  "int \<Rightarrow> int \<Rightarrow> dmx_controller \<Rightarrow> unit outcome \<times> dmx_controller" where
  "set_distortion_degree laser_num degree s =
     (if \<not> (0 \<le> degree \<and> degree \<le> 255) then (Returned (), say DegreeOutOfRange s)
      else set_channel (if laser_num = 1 then 16 else 17) degree s)"

definition set_second_lamp_pattern ::
  "int \<Rightarrow> dmx_controller \<Rightarrow> unit outcome \<times> dmx_controller" where
  "set_second_lamp_pattern pattern_value s =
     (if \<not> (0 \<le> pattern_value \<and> pattern_value \<le> 255)
      then (Returned (), say PatternValueOutOfRange s)
      else set_channel 18 pattern_value s)"

definition set_pattern_library_selection ::
  "string \<Rightarrow> dmx_controller \<Rightarrow> unit outcome \<times> dmx_controller" where
  "set_pattern_library_selection mode s =
     (if mode = ''default'' then set_channel 20 0 s
      else (Returned (), say OnlyDefaultSupported s))"

definition set_horizontal_flip ::
  "string \<Rightarrow> int option \<Rightarrow> dmx_controller \<Rightarrow> unit outcome \<times> dmx_controller" where
  "set_horizontal_flip mode value s =
     set_range_mode ''mode'' horizontal_flip_modes 26 mode value s"

definition set_vertical_flip ::
  "string \<Rightarrow> int option \<Rightarrow> dmx_controller \<Rightarrow> unit outcome \<times> dmx_controller" where
  "set_vertical_flip mode value s = set_range_mode ''mode'' vertical_flip_modes 27 mode value s"

definition set_color_change ::
  "string \<Rightarrow> int option \<Rightarrow> dmx_controller \<Rightarrow> unit outcome \<times> dmx_controller" where
  "set_color_change mode value s = set_range_mode ''mode'' color_change_modes 29 mode value s"

definition blackout :: "dmx_controller \<Rightarrow> unit outcome \<times> dmx_controller" where
  "blackout s = set_lamp_mode ''off'' s"

text \<open>\<^verbatim>\<open>{i: 0 for i in range(1, self.num_channels + 1)}\<close>, empty when N is below 1.\<close>

definition reset_all_channels :: "dmx_controller \<Rightarrow> unit outcome \<times> dmx_controller" where
  "reset_all_channels s =
     send_dmx_packet (Some (map (\<lambda>i. (i, 0)) [1..num_channels s])) s"

subsection \<open>The interface as a whole\<close>

text \<open>
  Every public method of the class as one constructor, and \<open>perform\<close> to run it, so that
  a statement about every operation is a statement about every \<open>call\<close>.
\<close>

datatype py_value = PyNone | PyInt int | PyList "int list"

datatype call =
    Disconnect
  | SendDmxPacket "(int \<times> int) list option"
  | SetChannel int int
  | GetChannelValue int
  | SetLampMode string
  | SetPatternSize int string "int option"
  | SelectGallery int
  | SelectPattern int int
  | SetPatternZooming int string "int option"
  | SetPatternRotation int string "int option"
  | SetHorizontalMovement int string "int option"
  | SetVerticalMovement int string "int option"
  | SetHorizontalZooming string "int option"
  | SetVerticalZooming string "int option"
  | SetForcedColor int string "int option"
  | SetStrobeFlash string "int option"
  | SetNodeHighlighting int string "int option"
  | SetNodeExpansion int int "int option"
  | SetGradualDrawing int string "int option"
  | SetDistortionDegree int int
  | SetSecondLampPattern int
  | SetPatternLibrarySelection string
  | SetHorizontalFlip string "int option"
  | SetVerticalFlip string "int option"
  | SetColorChange string "int option"
  | Blackout
  | ResetAllChannels
  | GetCurrentState

definition returns_none ::
  "unit outcome \<times> dmx_controller \<Rightarrow> py_value outcome \<times> dmx_controller" where
  "returns_none r =
     (case r of (Returned _, s) \<Rightarrow> (Returned PyNone, s) | (Raised e, s) \<Rightarrow> (Raised e, s))"

definition returns_channel ::
  "int option outcome \<times> dmx_controller \<Rightarrow> py_value outcome \<times> dmx_controller" where
  "returns_channel r =
     (case r of
        (Returned None, s) \<Rightarrow> (Returned PyNone, s)
      | (Returned (Some v), s) \<Rightarrow> (Returned (PyInt v), s)
      | (Raised e, s) \<Rightarrow> (Raised e, s))"

fun perform :: "call \<Rightarrow> dmx_controller \<Rightarrow> py_value outcome \<times> dmx_controller" where
  "perform Disconnect s = returns_none (disconnect s)"
| "perform (SendDmxPacket cv) s = returns_none (send_dmx_packet cv s)"
| "perform (SetChannel c v) s = returns_none (set_channel c v s)"
| "perform (GetChannelValue c) s = returns_channel (get_channel_value c s)"
| "perform (SetLampMode m) s = returns_none (set_lamp_mode m s)"
| "perform (SetPatternSize l m v) s = returns_none (set_pattern_size l m v s)"
| "perform (SelectGallery g) s = returns_none (select_gallery g s)"
| "perform (SelectPattern l i) s = returns_none (select_pattern l i s)"
| "perform (SetPatternZooming l m v) s = returns_none (set_pattern_zooming l m v s)"
| "perform (SetPatternRotation l m v) s = returns_none (set_pattern_rotation l m v s)"
| "perform (SetHorizontalMovement l m v) s = returns_none (set_horizontal_movement l m v s)"
| "perform (SetVerticalMovement l m v) s = returns_none (set_vertical_movement l m v s)"
| "perform (SetHorizontalZooming m v) s = returns_none (set_horizontal_zooming m v s)"
| "perform (SetVerticalZooming m v) s = returns_none (set_vertical_zooming m v s)"
| "perform (SetForcedColor l m v) s = returns_none (set_forced_color l m v s)"
| "perform (SetStrobeFlash m v) s = returns_none (set_strobe_flash m v s)"
| "perform (SetNodeHighlighting l m v) s = returns_none (set_node_highlighting l m v s)"
| "perform (SetNodeExpansion l e d) s = returns_none (set_node_expansion l e d s)"
| "perform (SetGradualDrawing l m v) s = returns_none (set_gradual_drawing l m v s)"
| "perform (SetDistortionDegree l d) s = returns_none (set_distortion_degree l d s)"
| "perform (SetSecondLampPattern v) s = returns_none (set_second_lamp_pattern v s)"
| "perform (SetPatternLibrarySelection m) s = returns_none (set_pattern_library_selection m s)"
| "perform (SetHorizontalFlip m v) s = returns_none (set_horizontal_flip m v s)"
| "perform (SetVerticalFlip m v) s = returns_none (set_vertical_flip m v s)"
| "perform (SetColorChange m v) s = returns_none (set_color_change m v s)"
| "perform Blackout s = returns_none (blackout s)"
| "perform ResetAllChannels s = returns_none (reset_all_channels s)"
| "perform GetCurrentState s =
     (case get_current_state s of
        (Returned xs, s1) \<Rightarrow> (Returned (PyList xs), s1)
      | (Raised e, s1) \<Rightarrow> (Raised e, s1))"

subsection \<open>The range-based methods under one interface\<close>





subsection \<open>Controller states used as examples\<close>

text \<open>
  A port whose writes succeed, the controller that \<^verbatim>\<open>DmxController()\<close> gives on such a
  port with the default of 32 channels, and the controller whose connection failed.
\<close>

definition default_handle :: serial_handle where
  "default_handle = \<lparr>write_raises = False, written = []\<rparr>"

definition fresh :: dmx_controller where
  "fresh = init 32 (Some default_handle)"

definition unplugged :: dmx_controller where
  "unplugged = init 32 None"

text \<open>The controller after channel 15, and after channel 14, has been set on it.\<close>

definition drawing_200 :: dmx_controller where
  "drawing_200 = snd (set_channel 15 200 fresh)"

definition expansion_50 :: dmx_controller where
  "expansion_50 = snd (set_channel 14 50 fresh)"

text \<open>The same two controllers after \<^verbatim>\<open>disconnect()\<close>.\<close>

definition drawing_200_unplugged :: dmx_controller where
  "drawing_200_unplugged = snd (disconnect drawing_200)"

definition expansion_50_unplugged :: dmx_controller where
  "expansion_50_unplugged = snd (disconnect expansion_50)"

text \<open>
  A property of the object is stable when printing, sending a packet and dropping the
  handle keep it; every method is built from these three.
\<close>

definition stable :: "(dmx_controller \<Rightarrow> bool) \<Rightarrow> bool" where
  "stable P \<longleftrightarrow>
     (\<forall>m s. P s \<longrightarrow> P (say m s)) \<and>
     (\<forall>cv s. P s \<longrightarrow> P (snd (send_dmx_packet cv s))) \<and>
     (\<forall>s. P s \<longrightarrow> P (s\<lparr>serial_port := None\<rparr>))"

section \<open>Properties\<close>

subsection \<open>Frame lemmas\<close>

lemma say_fields [simp]:
  "num_channels (say m s) = num_channels s"
  "current_state (say m s) = current_state s"
  "serial_port (say m s) = serial_port s"
  "console (say m s) = console s @ [m]"
  by (simp_all add: say_def)

lemma channel_invariant_say [simp]: "channel_invariant (say m s) = channel_invariant s"
  by (simp add: channel_invariant_def)

lemma bytes_update:
  "list_all (\<lambda>v. 0 \<le> v \<and> v \<le> (255::int)) xs \<Longrightarrow> 0 \<le> x \<Longrightarrow> x \<le> 255 \<Longrightarrow>
   list_all (\<lambda>v. 0 \<le> v \<and> v \<le> 255) (xs[i := x])"
  by (auto simp: list_all_iff dest!: set_update_subset_insert [THEN subsetD])

lemma write_items_frame:
  "serial_port (snd (write_items items s)) = serial_port s \<and>
   num_channels (snd (write_items items s)) = num_channels s \<and>
   length (current_state (snd (write_items items s))) = length (current_state s)"
  by (induction items s rule: write_items.induct) simp_all

lemma write_items_bytes:
  "list_all (\<lambda>v. 0 \<le> v \<and> v \<le> 255) (current_state s) \<Longrightarrow>
   list_all (\<lambda>v. 0 \<le> v \<and> v \<le> 255) (current_state (snd (write_items items s)))"
  by (induction items s rule: write_items.induct) (simp_all add: bytes_update)

lemma write_items_invariant:
  "channel_invariant s \<Longrightarrow> channel_invariant (snd (write_items items s))"
  using write_items_frame [of items s] write_items_bytes [of s items]
  by (simp add: channel_invariant_def)

lemma write_items_returns:
  "int (length (current_state s)) = num_channels s \<Longrightarrow> fst (write_items items s) = Returned ()"
  by (induction items s rule: write_items.induct) (auto simp: nat_less_iff)

lemma serial_write_fields [simp]:
  "num_channels (serial_write p s) = num_channels s"
  "current_state (serial_write p s) = current_state s"
  by (simp_all add: serial_write_def split: option.splits)

lemma channel_invariant_serial_write [simp]:
  "channel_invariant (serial_write p s) = channel_invariant s"
  by (simp add: channel_invariant_def)

lemma update_channels_invariant:
  "channel_invariant s \<Longrightarrow> channel_invariant (snd (update_channels cv s))"
  by (simp add: update_channels_def write_items_invariant split: option.splits)

lemma send_dmx_packet_invariant:
  "channel_invariant s \<Longrightarrow> channel_invariant (snd (send_dmx_packet cv s))"
  using update_channels_invariant [of s cv]
  by (auto simp: send_dmx_packet_def split: option.splits prod.splits outcome.splits)


lemma snd_returns_none [simp]: "snd (returns_none r) = snd r"
  by (simp add: returns_none_def split: prod.splits outcome.splits)

lemma snd_returns_channel [simp]: "snd (returns_channel r) = snd r"
  by (simp add: returns_channel_def split: prod.splits outcome.splits option.splits)

lemma stable_say: "stable P \<Longrightarrow> P s \<Longrightarrow> P (say m s)"
  by (simp add: stable_def)

lemma stable_send: "stable P \<Longrightarrow> P s \<Longrightarrow> P (snd (send_dmx_packet cv s))"
  by (simp add: stable_def)

lemma stable_set_channel: "stable P \<Longrightarrow> P s \<Longrightarrow> P (snd (set_channel c v s))"
  by (simp add: set_channel_def stable_send)

lemma stable_disconnect: "stable P \<Longrightarrow> P s \<Longrightarrow> P (snd (disconnect s))"
  by (simp add: disconnect_def stable_def split: option.splits)

lemma stable_get_channel_value: "stable P \<Longrightarrow> P s \<Longrightarrow> P (snd (get_channel_value c s))"
  by (simp add: get_channel_value_def stable_say)

lemma stable_set_range_mode:
  "stable P \<Longrightarrow> P s \<Longrightarrow> P (snd (set_range_mode label modes c mode v s))"
  by (simp add: set_range_mode_def stable_say stable_set_channel split: option.splits prod.splits)

lemma stable_set_lamp_mode: "stable P \<Longrightarrow> P s \<Longrightarrow> P (snd (set_lamp_mode mode s))"
  by (simp add: set_lamp_mode_def stable_say stable_set_channel
      split: option.splits lamp_value.splits)

lemma stable_set_forced_color:
  "stable P \<Longrightarrow> P s \<Longrightarrow> P (snd (set_forced_color l mode v s))"
  by (simp add: set_forced_color_def Let_def stable_say stable_set_channel split: option.splits)

lemma stable_set_node_expansion:
  "stable P \<Longrightarrow> P s \<Longrightarrow> P (snd (set_node_expansion l e d s))"
proof -
  assume st: "stable P" and p: "P s"
  let ?g = "get_channel_value (if l = 1 then 15 else 32) s"
  have "P (snd ?g)" using st p by (rule stable_get_channel_value)
  then show ?thesis
    by (cases ?g) (simp add: set_node_expansion_def Let_def st p stable_say stable_set_channel
        split: option.splits outcome.splits)
qed

lemma stable_expansion_check:
  "stable P \<Longrightarrow> P s \<Longrightarrow> P (snd (expansion_check companion c m s))"
proof -
  assume st: "stable P" and p: "P s"
  have "P (snd (get_channel_value companion s))" using st p by (rule stable_get_channel_value)
  then show ?thesis
    by (cases "get_channel_value companion s")
       (simp add: expansion_check_def st stable_say stable_set_channel split: outcome.splits)
qed

lemma stable_set_gradual_drawing:
  "stable P \<Longrightarrow> P s \<Longrightarrow> P (snd (set_gradual_drawing l mode m s))"
  by (simp add: set_gradual_drawing_def Let_def stable_say stable_set_channel
      stable_expansion_check split: option.splits prod.splits)

lemma stable_perform: "stable P \<Longrightarrow> P s \<Longrightarrow> P (snd (perform c s))"
proof (cases c)
  case GetCurrentState
  assume "P s" then show ?thesis using GetCurrentState by (simp add: get_current_state_def)
qed (simp_all add: stable_disconnect stable_send stable_set_channel stable_get_channel_value
      stable_set_lamp_mode stable_set_range_mode stable_set_forced_color
      stable_set_node_expansion stable_set_gradual_drawing stable_say
      set_pattern_size_def select_gallery_def select_pattern_def set_pattern_zooming_def
      set_pattern_rotation_def set_horizontal_movement_def set_vertical_movement_def
      set_horizontal_zooming_def set_vertical_zooming_def set_strobe_flash_def
      set_node_highlighting_def set_distortion_degree_def set_second_lamp_pattern_def
      set_pattern_library_selection_def set_horizontal_flip_def set_vertical_flip_def
      set_color_change_def blackout_def reset_all_channels_def)

lemma update_channels_frame:
  "serial_port (snd (update_channels cv s)) = serial_port s \<and>
   num_channels (snd (update_channels cv s)) = num_channels s \<and>
   length (current_state (snd (update_channels cv s))) = length (current_state s)"
  using write_items_frame [of _ s] by (simp add: update_channels_def split: option.splits)

lemma send_dmx_packet_frame:
  "num_channels (snd (send_dmx_packet cv s)) = num_channels s \<and>
   length (current_state (snd (send_dmx_packet cv s))) = length (current_state s)"
proof (cases "update_channels cv s")
  case (Pair r s1)
  then have "num_channels s1 = num_channels s" "length (current_state s1) = length (current_state s)"
    using update_channels_frame [of cv s] by simp_all
  then show ?thesis using Pair
    by (simp add: send_dmx_packet_def split: option.splits outcome.splits)
qed

lemma stable_invariant:
  "stable (\<lambda>t. channel_invariant t \<and> num_channels t = n \<and> length (current_state t) = k)"
  unfolding stable_def
  using send_dmx_packet_invariant send_dmx_packet_frame
  by (simp add: channel_invariant_def)

lemma send_dmx_packet_disconnected:
  "serial_port s = None \<Longrightarrow> send_dmx_packet cv s = (Returned (), say NotConnectedError s)"
  by (simp add: send_dmx_packet_def)

lemma stable_disconnected: "stable (\<lambda>t. serial_port t = None \<and> current_state t = xs)"
  by (simp add: stable_def send_dmx_packet_disconnected)

lemma init_invariant: "0 \<le> n \<Longrightarrow> channel_invariant (init n h)"
  by (simp add: init_def channel_invariant_def list_all_iff)

lemma fresh_fields:
  "num_channels fresh = 32" "serial_port fresh = Some default_handle"
  "channel_invariant fresh" "current_state fresh = replicate 32 0" "console fresh = []"
  by (simp_all add: fresh_def init_invariant) (simp_all add: init_def)

lemma set_channel_disconnected:
  "serial_port s = None \<Longrightarrow> set_channel c v s = (Returned (), say NotConnectedError s)"
  by (simp add: set_channel_def send_dmx_packet_disconnected)

lemma build_packet_bytes:
  "list_all (\<lambda>v. 0 \<le> v \<and> v \<le> 255) xs \<Longrightarrow> build_packet xs = Some (0 # map word_of_int xs)"
  by (simp add: build_packet_def)

lemma set_channel_valid:
  assumes "serial_port s = Some h" "channel_invariant s"
    and "1 \<le> c" "c \<le> num_channels s" "0 \<le> v" "v \<le> 255"
  shows "set_channel c v s =
    (Returned (),
     serial_write (0 # map word_of_int ((current_state s)[nat (c - 1) := v]))
       (s\<lparr>current_state := (current_state s)[nat (c - 1) := v]\<rparr>))"
proof -
  have len: "nat (c - 1) < length (current_state s)"
    using assms by (simp add: channel_invariant_def nat_less_iff)
  have "list_all (\<lambda>v. 0 \<le> v \<and> v \<le> 255) ((current_state s)[nat (c - 1) := v])"
    using assms by (simp add: channel_invariant_def bytes_update)
  then show ?thesis
    using assms len
    by (simp add: set_channel_def send_dmx_packet_def update_channels_def build_packet_bytes)
qed

lemma set_channel_invalid:
  assumes "serial_port s = Some h" "channel_invariant s"
    and "\<not> (1 \<le> c \<and> c \<le> num_channels s \<and> 0 \<le> v \<and> v \<le> 255)"
  shows "set_channel c v s =
    (Returned (),
     serial_write (0 # map word_of_int (current_state s)) (say (InvalidChannelOrValue c v) s))"
  using assms
  by (auto simp: set_channel_def send_dmx_packet_def update_channels_def build_packet_bytes
      channel_invariant_def)

lemma serial_write_console:
  "serial_port s = Some h \<Longrightarrow>
   console (serial_write p s) = console s @ (if write_raises h then [SendError] else [])"
  by (simp add: serial_write_def)

lemma unplugged_fields:
  "num_channels unplugged = 32" "serial_port unplugged = None"
  "channel_invariant unplugged" "current_state unplugged = replicate 32 0" "console unplugged = []"
  by (simp_all add: unplugged_def init_invariant) (simp_all add: init_def)

subsection \<open>The methods on a known state\<close>

lemma set_channel_fresh:
  assumes "1 \<le> c" "c \<le> 32" "0 \<le> v" "v \<le> 255"
  shows "set_channel c v fresh =
    (Returned (),
     fresh\<lparr>current_state := (replicate 32 0)[nat (c - 1) := v],
           serial_port := Some \<lparr>write_raises = False,
             written = [0 # map word_of_int ((replicate 32 0)[nat (c - 1) := v])]\<rparr>\<rparr>)"
  using set_channel_valid [of fresh default_handle c v] assms
  by (simp add: fresh_fields serial_write_def) (simp add: default_handle_def)

lemma drawing_200_fields:
  "num_channels drawing_200 = 32" "serial_port drawing_200 \<noteq> None"
  "current_state drawing_200 = (replicate 32 0)[14 := 200]"
  by (simp_all add: drawing_200_def set_channel_fresh fresh_fields)

lemma drawing_200_invariant: "channel_invariant drawing_200"
  using send_dmx_packet_invariant [of fresh]
  by (simp add: drawing_200_def set_channel_def fresh_fields)

lemma expansion_50_fields:
  "num_channels expansion_50 = 32" "serial_port expansion_50 \<noteq> None"
  "current_state expansion_50 = (replicate 32 0)[13 := 50]"
  by (simp_all add: expansion_50_def set_channel_fresh fresh_fields)

lemma expansion_50_invariant: "channel_invariant expansion_50"
  using send_dmx_packet_invariant [of fresh]
  by (simp add: expansion_50_def set_channel_def fresh_fields)

lemma disconnect_fields:
  "num_channels (snd (disconnect s)) = num_channels s"
  "current_state (snd (disconnect s)) = current_state s"
  "serial_port (snd (disconnect s)) = None"
  by (simp_all add: disconnect_def split: option.splits)

lemma drawing_200_unplugged_fields:
  "num_channels drawing_200_unplugged = 32" "serial_port drawing_200_unplugged = None"
  "current_state drawing_200_unplugged = (replicate 32 0)[14 := 200]"
  by (simp_all add: drawing_200_unplugged_def disconnect_fields drawing_200_fields)

lemma expansion_50_unplugged_fields:
  "num_channels expansion_50_unplugged = 32" "serial_port expansion_50_unplugged = None"
  "current_state expansion_50_unplugged = (replicate 32 0)[13 := 50]"
  by (simp_all add: expansion_50_unplugged_def disconnect_fields expansion_50_fields)

lemma serial_write_port:
  "serial_port s = Some h \<Longrightarrow>
   serial_port (serial_write p s) =
     Some (if write_raises h then h else h\<lparr>written := written h @ [p]\<rparr>)"
  by (simp add: serial_write_def)

lemma set_channel_returns:
  assumes "serial_port s \<noteq> None" "channel_invariant s"
    and "1 \<le> c" "c \<le> num_channels s" "0 \<le> v" "v \<le> 255"
  shows "fst (set_channel c v s) = Returned ()"
proof -
  obtain h where "serial_port s = Some h" using assms(1) by auto
  from set_channel_valid [OF this assms(2-6)] show ?thesis by simp
qed

lemma set_channel_disconnected_array:
  "serial_port s = None \<Longrightarrow> current_state (snd (set_channel c v s)) = current_state s"
  by (simp add: set_channel_disconnected)

lemma set_channel_array:
  assumes "serial_port s \<noteq> None" "channel_invariant s"
    and "1 \<le> c" "c \<le> num_channels s" "0 \<le> v" "v \<le> 255"
  shows "current_state (snd (set_channel c v s)) = (current_state s)[nat (c - 1) := v]"
proof -
  obtain h where "serial_port s = Some h" using assms(1) by auto
  from set_channel_valid [OF this assms(2-6)] show ?thesis by simp
qed

lemmas range_method_defs =
  set_pattern_size_def set_pattern_zooming_def set_pattern_rotation_def
  set_horizontal_movement_def set_vertical_movement_def set_horizontal_zooming_def
  set_vertical_zooming_def set_strobe_flash_def set_node_highlighting_def
  set_horizontal_flip_def set_vertical_flip_def set_color_change_def






lemma get_channel_value_returns:
  "channel_invariant s \<Longrightarrow> \<exists>r. fst (get_channel_value c s) = Returned r"
  by (auto simp: get_channel_value_def channel_invariant_def nat_less_iff)

lemma perform_returns_disconnected:
  assumes "serial_port s = None" and "channel_invariant s" and "32 \<le> num_channels s"
  shows "\<exists>r. fst (perform c s) = Returned r"
proof -
  have g: "nat (c - 1) < length (current_state s)" if "1 \<le> c" "c \<le> num_channels s" for c
    using that assms(2) by (simp add: channel_invariant_def nat_less_iff)
  note d = set_channel_disconnected send_dmx_packet_disconnected returns_none_def
    returns_channel_def
  show ?thesis
  proof (cases c)
    case (GetChannelValue x)
    then show ?thesis using g [of x]
      by (auto simp: d get_channel_value_def split: option.splits)
  next
    case (SetNodeExpansion l e dv)
    then show ?thesis using assms g [of 15] g [of 32]
      by (auto simp: d set_node_expansion_def get_channel_value_def split: option.splits)
  next
    case (SetGradualDrawing l m v)
    then show ?thesis using assms g [of 14] g [of 31]
      by (auto simp: d set_gradual_drawing_def expansion_check_def get_channel_value_def
          split: option.splits)
  qed (use assms in \<open>auto simp: d disconnect_def set_lamp_mode_def set_range_mode_def
      range_method_defs select_gallery_def select_pattern_def set_forced_color_def
      set_distortion_degree_def set_second_lamp_pattern_def set_pattern_library_selection_def
      blackout_def reset_all_channels_def get_current_state_def
      split: option.splits lamp_value.splits\<close>)
qed

lemma gradual_manual_lookup:
  "mode = ''forward_manual'' \<or> mode = ''reverse_manual'' \<Longrightarrow>
   \<exists>lo hi. map_of gradual_drawing_modes mode = Some (lo, hi)"
  by (auto simp: gradual_drawing_modes_def)

subsection \<open>The channel store\<close>

text \<open>
  C1 (amended). On a controller that holds a serial handle and satisfies the channel
  invariant, for every channel i in 1..N and every value v in 0..255,
  \<^verbatim>\<open>set_channel(i, v)\<close> returns and \<^verbatim>\<open>get_channel_value(i)\<close> on the resulting
  object returns v.
\<close>

theorem set_get_round_trip_connected:
  assumes "serial_port s \<noteq> None" and "channel_invariant s"
    and "1 \<le> i" and "i \<le> num_channels s" and "0 \<le> v" and "v \<le> 255"
  shows "fst (set_channel i v s) = Returned () \<and>
         fst (get_channel_value i (snd (set_channel i v s))) = Returned (Some v)"
proof -
  obtain h where h: "serial_port s = Some h" using assms(1) by auto
  have len: "nat (i - 1) < length (current_state s)"
    using assms by (simp add: channel_invariant_def nat_less_iff)
  show ?thesis
    using set_channel_valid [OF h assms(2-6)] len assms(3,4)
    by (simp add: get_channel_value_def)
qed

theorem set_get_round_trip_connected_witness:
  "serial_port fresh \<noteq> None \<and> channel_invariant fresh \<and> (1::int) \<le> 5 \<and> 5 \<le> num_channels fresh \<and>
   (0::int) \<le> 200 \<and> (200::int) \<le> 255 \<and>
   fst (set_channel 5 200 fresh) = Returned () \<and>
   fst (get_channel_value 5 (snd (set_channel 5 200 fresh))) = Returned (Some 200)"
  using set_get_round_trip_connected [of fresh 5 200] by (simp add: fresh_fields)

text \<open>
  C1 as stated, for every controller state, fails on a controller without a handle:
  \<^verbatim>\<open>send_dmx_packet\<close> returns before the loop, and channel 5 still reads 0 after
  \<^verbatim>\<open>set_channel(5, 200)\<close>.
\<close>

theorem set_get_round_trip_disconnected_counterexample:
  "channel_invariant (init 32 None) \<and> (1::int) \<le> 5 \<and> 5 \<le> num_channels (init 32 None) \<and>
   (0::int) \<le> 200 \<and> (200::int) \<le> 255 \<and>
   fst (get_channel_value 5 (snd (set_channel 5 200 (init 32 None)))) = Returned (Some 0)"
  by (simp add: init_def set_channel_disconnected get_channel_value_def
      channel_invariant_def list_all_iff)

text \<open>
  C4 (amended). For a channel outside 1..N or a value outside 0..255, on a controller whose
  channel array satisfies its invariant, \<^verbatim>\<open>set_channel\<close> returns and leaves the
  channel array as it was. On a controller that holds a handle it prints the warning for
  the invalid channel or value and then sends the packet of the unchanged array: the
  packet is written to the port when the write succeeds, and when the write raises the
  failure is printed and nothing is written. On a controller without a handle it prints
  only that it is not connected, and sends nothing.
\<close>

theorem set_channel_invalid_unchanged:
  assumes "channel_invariant s"
    and "\<not> (1 \<le> c \<and> c \<le> num_channels s) \<or> \<not> (0 \<le> v \<and> v \<le> 255)"
  shows "fst (set_channel c v s) = Returned () \<and>
         current_state (snd (set_channel c v s)) = current_state s \<and>
         console (snd (set_channel c v s)) =
           (case serial_port s of
              Some h \<Rightarrow> console s @ InvalidChannelOrValue c v #
                          (if write_raises h then [SendError] else [])
            | None \<Rightarrow> console s @ [NotConnectedError]) \<and>
         serial_port (snd (set_channel c v s)) =
           (case serial_port s of
              Some h \<Rightarrow>
                Some (if write_raises h then h
                      else h\<lparr>written := written h @ [0 # map word_of_int (current_state s)]\<rparr>)
            | None \<Rightarrow> None)"
proof (cases "serial_port s")
  case None
  then show ?thesis by (simp add: set_channel_disconnected)
next
  case (Some h)
  have "\<not> (1 \<le> c \<and> c \<le> num_channels s \<and> 0 \<le> v \<and> v \<le> 255)" using assms(2) by auto
  from set_channel_invalid [OF Some assms(1) this] Some show ?thesis
    by (simp add: serial_write_console serial_write_port)
qed

theorem set_channel_invalid_unchanged_witness:
  "channel_invariant fresh \<and> \<not> (1 \<le> (33::int) \<and> 33 \<le> num_channels fresh) \<and>
   fst (set_channel 33 7 fresh) = Returned () \<and>
   current_state (snd (set_channel 33 7 fresh)) = current_state fresh \<and>
   console (snd (set_channel 33 7 fresh)) = [InvalidChannelOrValue 33 7] \<and>
   serial_port (snd (set_channel 33 7 fresh)) =
     Some \<lparr>write_raises = False, written = [0 # map word_of_int (replicate 32 0)]\<rparr> \<and>
   channel_invariant unplugged \<and> \<not> (1 \<le> (33::int) \<and> 33 \<le> num_channels unplugged) \<and>
   current_state (snd (set_channel 33 7 unplugged)) = current_state unplugged \<and>
   console (snd (set_channel 33 7 unplugged)) = [NotConnectedError] \<and>
   serial_port (snd (set_channel 33 7 unplugged)) = None"
  using set_channel_invalid_unchanged [of fresh 33 7]
    set_channel_invalid_unchanged [of unplugged 33 7]
  by (simp add: fresh_fields unplugged_fields) (simp add: default_handle_def)

text \<open>
  C4 as stated fails on a controller without a handle: channel 33 of 32 is refused with
  the line for a missing connection, and no line about the channel or the value is
  printed.
\<close>

theorem set_channel_invalid_disconnected_counterexample:
  "\<not> (1 \<le> (33::int) \<and> 33 \<le> num_channels (init 32 None)) \<and>
   set_channel 33 7 (init 32 None) = (Returned (), say NotConnectedError (init 32 None)) \<and>
   console (snd (set_channel 33 7 (init 32 None))) = [NotConnectedError]"
  by (simp add: init_def set_channel_disconnected)

subsection \<open>The packet\<close>

text \<open>
  C7. For a channel array of byte values the packet is built, and read as numbers it is
  0 followed by the channel values in order, one byte longer than the array, with nothing
  else added. A send without new values on a working port writes exactly this packet.
  For the 32 channels at 0 the packet is 33 bytes, all 0.
\<close>

theorem packet_is_start_code_then_channels:
  "(list_all (\<lambda>v. 0 \<le> v \<and> v \<le> 255) state \<longrightarrow>
      (\<exists>p. build_packet state = Some p \<and> map uint p = 0 # state \<and>
           length p = length state + 1)) \<and>
   (channel_invariant s \<and> serial_port s = Some h \<and> \<not> write_raises h \<longrightarrow>
      (\<exists>p. send_dmx_packet None s =
             (Returned (), s\<lparr>serial_port := Some (h\<lparr>written := written h @ [p]\<rparr>)\<rparr>) \<and>
           map uint p = 0 # current_state s \<and> int (length p) = num_channels s + 1)) \<and>
   build_packet (replicate 32 0) = Some (replicate 33 0)"
proof (intro conjI impI)
  have u: "map (uint \<circ> (word_of_int :: int \<Rightarrow> 8 word)) xs = xs"
    if "list_all (\<lambda>v. 0 \<le> v \<and> v \<le> 255) xs" for xs
    using that by (induction xs) (simp_all add: uint_word_of_int)
  { assume b: "list_all (\<lambda>v. 0 \<le> v \<and> v \<le> 255) state"
    then show "\<exists>p. build_packet state = Some p \<and> map uint p = 0 # state \<and>
           length p = length state + 1"
      by (simp add: build_packet_bytes u) }
  { assume a: "channel_invariant s \<and> serial_port s = Some h \<and> \<not> write_raises h"
    then show "\<exists>p. send_dmx_packet None s =
             (Returned (), s\<lparr>serial_port := Some (h\<lparr>written := written h @ [p]\<rparr>)\<rparr>) \<and>
           map uint p = 0 # current_state s \<and> int (length p) = num_channels s + 1"
      by (intro exI [of _ "0 # map word_of_int (current_state s)"])
         (simp add: send_dmx_packet_def update_channels_def build_packet_bytes
          channel_invariant_def serial_write_def u) }
  show "build_packet (replicate 32 0) = Some (replicate 33 0)"
    by (simp add: build_packet_def list_all_iff) (simp add: numeral_eq_Suc)
qed

theorem packet_is_start_code_then_channels_witness:
  "list_all (\<lambda>v. 0 \<le> v \<and> v \<le> 255) [0, 255, 7 :: int] \<and>
   (\<exists>p. build_packet [0, 255, 7] = Some p \<and> map uint p = [0, 0, 255, 7] \<and>
        length p = length [0, 255, 7 :: int] + 1) \<and>
   (channel_invariant fresh \<and> serial_port fresh = Some default_handle \<and>
    \<not> write_raises default_handle) \<and>
   (\<exists>p. send_dmx_packet None fresh =
          (Returned (),
           fresh\<lparr>serial_port := Some (default_handle\<lparr>written := written default_handle @ [p]\<rparr>)\<rparr>) \<and>
        map uint p = 0 # current_state fresh \<and> int (length p) = num_channels fresh + 1)"
proof -
  have h1: "list_all (\<lambda>v. 0 \<le> v \<and> v \<le> 255) [0, 255, 7 :: int]"
    by simp
  have h2: "channel_invariant fresh \<and> serial_port fresh = Some default_handle \<and>
    \<not> write_raises default_handle"
    by (simp add: fresh_fields default_handle_def)
  show ?thesis
    using packet_is_start_code_then_channels [of "[0, 255, 7]" fresh default_handle] h1 h2
    by blast
qed

subsection \<open>The range-based methods\<close>







text \<open>
  C8. \<^verbatim>\<open>set_node_highlighting\<close> with the mode "scanning_line" accepts an explicit value
  exactly when it lies in 128..223 (so also above 159), on channel 13 or 30; and a value
  in 224..255 is refused whatever the mode name, with the line for the invalid mode or
  for the value out of the range of the mode.
\<close>

theorem scanning_line_range:
  "set_node_highlighting laser ''scanning_line'' (Some v) s =
     (if 128 \<le> v \<and> v \<le> 223 then set_channel (if laser = 1 then 13 else 30) v s
      else (Returned (), say (ValueOutOfRange v ''scanning_line'' 128 223) s)) \<and>
   (224 \<le> v \<and> v \<le> 255 \<longrightarrow>
      set_node_highlighting laser mode (Some v) s =
        (Returned (),
         say (case map_of node_highlighting_modes mode of
                None \<Rightarrow> InvalidMode ''mode'' mode (map fst node_highlighting_modes)
              | Some (lo, hi) \<Rightarrow> ValueOutOfRange v mode lo hi) s))"
proof (intro conjI impI)
  show "set_node_highlighting laser ''scanning_line'' (Some v) s =
     (if 128 \<le> v \<and> v \<le> 223 then set_channel (if laser = 1 then 13 else 30) v s
      else (Returned (), say (ValueOutOfRange v ''scanning_line'' 128 223) s))"
    by (simp add: set_node_highlighting_def set_range_mode_def node_highlighting_modes_def)
next
  assume v: "224 \<le> v \<and> v \<le> 255"
  have "hi \<le> 223" if "map_of node_highlighting_modes mode = Some (lo, hi)" for lo hi
    using that by (auto simp: node_highlighting_modes_def split: if_splits)
  then show "set_node_highlighting laser mode (Some v) s =
        (Returned (),
         say (case map_of node_highlighting_modes mode of
                None \<Rightarrow> InvalidMode ''mode'' mode (map fst node_highlighting_modes)
              | Some (lo, hi) \<Rightarrow> ValueOutOfRange v mode lo hi) s)"
    using v by (fastforce simp: set_node_highlighting_def set_range_mode_def split: option.splits)
qed

theorem scanning_line_range_witness:
  "(224::int) \<le> 240 \<and> (240::int) \<le> 255 \<and>
   set_node_highlighting 1 ''scanning_line'' (Some 200) fresh = set_channel 13 200 fresh \<and>
   set_node_highlighting 1 ''scanning_line'' (Some 240) fresh =
     (Returned (), say (ValueOutOfRange 240 ''scanning_line'' 128 223) fresh) \<and>
   set_node_highlighting 1 ''broken_lines'' (Some 240) fresh =
     (Returned (), say (ValueOutOfRange 240 ''broken_lines'' 64 127) fresh)"
proof -
  have t: "map_of node_highlighting_modes ''broken_lines'' = Some (64, 127)"
    by (simp add: node_highlighting_modes_def)
  show ?thesis
    using scanning_line_range [of 1 200 fresh "''broken_lines''"]
      scanning_line_range [of 1 240 fresh "''broken_lines''"] t
    by simp
qed

subsection \<open>Node expansion and gradual drawing\<close>

text \<open>
  C2 (amended). For laser 1 or 2 and an expansion value in 0..255,
  \<^verbatim>\<open>set_node_expansion\<close> reads the gradual-drawing channel (15, or 32). When that
  channel holds 128 or more, the call without a delay value prints that the delay is
  required and does nothing else, and the call with a delay value in 0..255 calls
  \<^verbatim>\<open>set_channel\<close> with the delay value for channel 14 (or 31); when it holds less than
  128 the call is \<^verbatim>\<open>set_channel\<close> with the expansion value. On a controller that holds
  a handle and whose channel array satisfies its invariant that call returns and the
  array then holds the value at the channel; on a controller without a handle the array
  stays as it was.
\<close>

theorem node_expansion_follows_gradual_drawing:
  assumes "laser = 1 \<or> laser = 2" and "0 \<le> expansion_value" and "expansion_value \<le> 255"
    and "get_channel_value (if laser = 1 then 15 else 32) s = (Returned (Some held), s)"
  shows "(128 \<le> held \<longrightarrow>
            set_node_expansion laser expansion_value None s = (Returned (), say DelayRequired s) \<and>
            current_state (snd (set_node_expansion laser expansion_value None s)) =
              current_state s) \<and>
         (128 \<le> held \<and> 0 \<le> delay \<and> delay \<le> 255 \<longrightarrow>
            set_node_expansion laser expansion_value (Some delay) s =
              set_channel (if laser = 1 then 14 else 31) delay s \<and>
            (serial_port s \<noteq> None \<and> channel_invariant s \<longrightarrow>
               fst (set_node_expansion laser expansion_value (Some delay) s) = Returned () \<and>
               current_state (snd (set_node_expansion laser expansion_value (Some delay) s)) =
                 (current_state s)[nat ((if laser = 1 then 14 else 31) - 1) := delay]) \<and>
            (serial_port s = None \<longrightarrow>
               current_state (snd (set_node_expansion laser expansion_value (Some delay) s)) =
                 current_state s)) \<and>
         (held < 128 \<longrightarrow>
            set_node_expansion laser expansion_value delay_value s =
              set_channel (if laser = 1 then 14 else 31) expansion_value s \<and>
            (serial_port s \<noteq> None \<and> channel_invariant s \<longrightarrow>
               fst (set_node_expansion laser expansion_value delay_value s) = Returned () \<and>
               current_state (snd (set_node_expansion laser expansion_value delay_value s)) =
                 (current_state s)[nat ((if laser = 1 then 14 else 31) - 1) := expansion_value]) \<and>
            (serial_port s = None \<longrightarrow>
               current_state (snd (set_node_expansion laser expansion_value delay_value s)) =
                 current_state s))"
proof -
  have n: "(if laser = 1 then 15 else 32) \<le> num_channels s"
    using assms(4) by (auto simp: get_channel_value_def split: if_splits)
  then have ch: "1 \<le> (if laser = 1 then 14 else (31::int))"
    "(if laser = 1 then 14 else 31) \<le> num_channels s"
    by (auto split: if_splits)
  have a: "128 \<le> held \<Longrightarrow>
      set_node_expansion laser expansion_value None s = (Returned (), say DelayRequired s)"
    using assms by (simp add: set_node_expansion_def)
  have b: "128 \<le> held \<Longrightarrow> 0 \<le> delay \<Longrightarrow> delay \<le> 255 \<Longrightarrow>
      set_node_expansion laser expansion_value (Some delay) s =
        set_channel (if laser = 1 then 14 else 31) delay s"
    using assms by (simp add: set_node_expansion_def)
  have c: "held < 128 \<Longrightarrow>
      set_node_expansion laser expansion_value delay_value s =
        set_channel (if laser = 1 then 14 else 31) expansion_value s"
    using assms by (simp add: set_node_expansion_def)
  show ?thesis
    using a b c set_channel_array [OF _ _ ch, of delay] set_channel_returns [OF _ _ ch, of delay]
      set_channel_array [OF _ _ ch assms(2,3)] set_channel_returns [OF _ _ ch assms(2,3)]
      set_channel_disconnected_array [of s "if laser = 1 then 14 else 31"]
    by auto
qed

theorem node_expansion_follows_gradual_drawing_witness:
  "(1::int) = 1 \<and> (0::int) \<le> 50 \<and> (50::int) \<le> 255 \<and>
   get_channel_value 15 drawing_200 = (Returned (Some 200), drawing_200) \<and>
   set_node_expansion 1 50 None drawing_200 = (Returned (), say DelayRequired drawing_200) \<and>
   (serial_port drawing_200 \<noteq> None \<and> channel_invariant drawing_200) \<and>
   fst (set_node_expansion 1 50 (Some 10) drawing_200) = Returned () \<and>
   current_state (snd (set_node_expansion 1 50 (Some 10) drawing_200)) ! 13 = 10 \<and>
   get_channel_value 15 fresh = (Returned (Some 0), fresh) \<and>
   (serial_port fresh \<noteq> None \<and> channel_invariant fresh) \<and>
   current_state (snd (set_node_expansion 1 50 None fresh)) ! 13 = 50 \<and>
   get_channel_value 15 drawing_200_unplugged = (Returned (Some 200), drawing_200_unplugged) \<and>
   serial_port drawing_200_unplugged = None \<and>
   current_state (snd (set_node_expansion 1 50 (Some 10) drawing_200_unplugged)) =
     current_state drawing_200_unplugged"
proof -
  have g1: "get_channel_value (if (1::int) = 1 then 15 else 32) drawing_200 =
      (Returned (Some 200), drawing_200)"
    by (simp add: get_channel_value_def drawing_200_fields)
  have g2: "get_channel_value (if (1::int) = 1 then 15 else 32) fresh = (Returned (Some 0), fresh)"
    by (simp add: get_channel_value_def fresh_fields)
  have g3: "get_channel_value (if (1::int) = 1 then 15 else 32) drawing_200_unplugged =
      (Returned (Some 200), drawing_200_unplugged)"
    by (simp add: get_channel_value_def drawing_200_unplugged_fields)
  show ?thesis
    using node_expansion_follows_gradual_drawing [of 1 50 drawing_200 200 10, OF _ _ _ g1]
      node_expansion_follows_gradual_drawing [of 1 50 fresh 0 10 None, OF _ _ _ g2]
      node_expansion_follows_gradual_drawing [of 1 50 drawing_200_unplugged 200 10, OF _ _ _ g3]
      g1 g2 g3
    by (auto simp: drawing_200_fields drawing_200_invariant fresh_fields
        drawing_200_unplugged_fields)
qed

text \<open>
  C2 as stated, for every controller state, fails after \<^verbatim>\<open>disconnect()\<close>: channel 15
  holds 200, the delay 10 is supplied, and \<^verbatim>\<open>set_channel\<close> returns at the guard of
  \<^verbatim>\<open>send_dmx_packet\<close>, so channel 14 still holds 0.
\<close>

theorem node_expansion_disconnected_counterexample:
  "get_channel_value 15 drawing_200_unplugged = (Returned (Some 200), drawing_200_unplugged) \<and>
   set_node_expansion 1 50 (Some 10) drawing_200_unplugged =
     (Returned (), say NotConnectedError drawing_200_unplugged) \<and>
   current_state (snd (set_node_expansion 1 50 (Some 10) drawing_200_unplugged)) ! 13 = 0"
  by (simp add: set_node_expansion_def get_channel_value_def set_channel_disconnected
      drawing_200_unplugged_fields)

text \<open>
  C3 (amended). For a manual mode of \<^verbatim>\<open>set_gradual_drawing\<close> ("forward_manual" with
  the ceiling 127, "reverse_manual" with the ceiling 63): the call without a manual value,
  and the call with a manual value outside 0..ceiling, are refused before the
  node-expansion channel is read, with the line for the missing or the out-of-range value,
  and leave the array as it was. For laser 1 or 2 and a manual value within the ceiling:
  when the node-expansion channel (14, or 31) holds 0 the call prints that the channel
  must be set first and leaves the array as it was; when it holds another value the call
  is \<^verbatim>\<open>set_channel\<close> with the manual value for channel 15 (or 32). On a controller that
  holds a handle, whose channel array satisfies its invariant and has channel 15 (or 32)
  among its N channels, that call returns and the array then holds the manual value at the
  channel; on a controller without a handle the array stays as it was.
\<close>

theorem gradual_drawing_manual_precondition:
  assumes "mode = ''forward_manual'' \<or> mode = ''reverse_manual''"
  shows "set_gradual_drawing laser mode None s = (Returned (), say (ManualRequired mode) s) \<and>
         current_state (snd (set_gradual_drawing laser mode None s)) = current_state s \<and>
         (other < 0 \<or> (if mode = ''forward_manual'' then 127 else 63) < other \<longrightarrow>
            set_gradual_drawing laser mode (Some other) s =
              (Returned (), say (ManualOutOfRange mode) s) \<and>
            current_state (snd (set_gradual_drawing laser mode (Some other) s)) =
              current_state s) \<and>
         ((laser = 1 \<or> laser = 2) \<and> 0 \<le> manual \<and>
          manual \<le> (if mode = ''forward_manual'' then 127 else 63) \<and>
          get_channel_value (if laser = 1 then 14 else 31) s = (Returned (Some held), s) \<longrightarrow>
            (held = 0 \<longrightarrow>
               set_gradual_drawing laser mode (Some manual) s =
                 (Returned (), say (MustSetChannel (if laser = 1 then 14 else 31)) s) \<and>
               current_state (snd (set_gradual_drawing laser mode (Some manual) s)) =
                 current_state s) \<and>
            (held \<noteq> 0 \<longrightarrow>
               set_gradual_drawing laser mode (Some manual) s =
                 set_channel (if laser = 1 then 15 else 32) manual s \<and>
               (serial_port s \<noteq> None \<and> channel_invariant s \<and>
                (if laser = 1 then 15 else 32) \<le> num_channels s \<longrightarrow>
                  fst (set_gradual_drawing laser mode (Some manual) s) = Returned () \<and>
                  current_state (snd (set_gradual_drawing laser mode (Some manual) s)) =
                    (current_state s)[nat ((if laser = 1 then 15 else 32) - 1) := manual]) \<and>
               (serial_port s = None \<longrightarrow>
                  current_state (snd (set_gradual_drawing laser mode (Some manual) s)) =
                    current_state s)))"
proof -
  obtain lo hi where tab: "map_of gradual_drawing_modes mode = Some (lo, hi)"
    using gradual_manual_lookup [OF assms] by blast
  have c: "set_gradual_drawing laser mode None s = (Returned (), say (ManualRequired mode) s)"
    using assms tab by (auto simp: set_gradual_drawing_def)
  have d: "set_gradual_drawing laser mode (Some other) s =
      (Returned (), say (ManualOutOfRange mode) s)"
    if "other < 0 \<or> (if mode = ''forward_manual'' then 127 else 63) < other"
    using that assms tab by (auto simp: set_gradual_drawing_def)
  have rest: "(held = 0 \<longrightarrow>
               set_gradual_drawing laser mode (Some manual) s =
                 (Returned (), say (MustSetChannel (if laser = 1 then 14 else 31)) s) \<and>
               current_state (snd (set_gradual_drawing laser mode (Some manual) s)) =
                 current_state s) \<and>
            (held \<noteq> 0 \<longrightarrow>
               set_gradual_drawing laser mode (Some manual) s =
                 set_channel (if laser = 1 then 15 else 32) manual s \<and>
               (serial_port s \<noteq> None \<and> channel_invariant s \<and>
                (if laser = 1 then 15 else 32) \<le> num_channels s \<longrightarrow>
                  fst (set_gradual_drawing laser mode (Some manual) s) = Returned () \<and>
                  current_state (snd (set_gradual_drawing laser mode (Some manual) s)) =
                    (current_state s)[nat ((if laser = 1 then 15 else 32) - 1) := manual]) \<and>
               (serial_port s = None \<longrightarrow>
                  current_state (snd (set_gradual_drawing laser mode (Some manual) s)) =
                    current_state s))"
    if h: "(laser = 1 \<or> laser = 2) \<and> 0 \<le> manual \<and>
          manual \<le> (if mode = ''forward_manual'' then 127 else 63) \<and>
          get_channel_value (if laser = 1 then 14 else 31) s = (Returned (Some held), s)"
  proof -
    have m: "0 \<le> manual" "manual \<le> 255" using h by (simp_all split: if_splits)
    have a: "held = 0 \<Longrightarrow> set_gradual_drawing laser mode (Some manual) s =
        (Returned (), say (MustSetChannel (if laser = 1 then 14 else 31)) s)"
      using h assms tab by (auto simp: set_gradual_drawing_def expansion_check_def)
    have b: "held \<noteq> 0 \<Longrightarrow> set_gradual_drawing laser mode (Some manual) s =
        set_channel (if laser = 1 then 15 else 32) manual s"
      using h assms tab by (auto simp: set_gradual_drawing_def expansion_check_def)
    have one: "1 \<le> (if laser = 1 then 15 else (32::int))" by simp
    show ?thesis
      using a b set_channel_array [OF _ _ one _ m] set_channel_returns [OF _ _ one _ m]
        set_channel_disconnected_array [of s "if laser = 1 then 15 else 32" manual]
      by auto
  qed
  show ?thesis using c d rest by auto
qed

theorem gradual_drawing_manual_precondition_witness:
  "set_gradual_drawing 1 ''forward_manual'' None fresh =
     (Returned (), say (ManualRequired ''forward_manual'') fresh) \<and>
   (127::int) < 200 \<and>
   set_gradual_drawing 1 ''forward_manual'' (Some 200) fresh =
     (Returned (), say (ManualOutOfRange ''forward_manual'') fresh) \<and>
   (0::int) \<le> 100 \<and> (100::int) \<le> 127 \<and>
   get_channel_value 14 fresh = (Returned (Some 0), fresh) \<and>
   set_gradual_drawing 1 ''forward_manual'' (Some 100) fresh =
     (Returned (), say (MustSetChannel 14) fresh) \<and>
   get_channel_value 14 expansion_50 = (Returned (Some 50), expansion_50) \<and>
   (serial_port expansion_50 \<noteq> None \<and> channel_invariant expansion_50 \<and>
    15 \<le> num_channels expansion_50) \<and>
   fst (set_gradual_drawing 1 ''forward_manual'' (Some 100) expansion_50) = Returned () \<and>
   current_state (snd (set_gradual_drawing 1 ''forward_manual'' (Some 100) expansion_50)) ! 14 = 100 \<and>
   get_channel_value 14 expansion_50_unplugged = (Returned (Some 50), expansion_50_unplugged) \<and>
   serial_port expansion_50_unplugged = None \<and>
   current_state (snd (set_gradual_drawing 1 ''forward_manual'' (Some 100) expansion_50_unplugged)) =
     current_state expansion_50_unplugged"
proof -
  have g1: "get_channel_value (if (1::int) = 1 then 14 else 31) fresh = (Returned (Some 0), fresh)"
    by (simp add: get_channel_value_def fresh_fields)
  have g2: "get_channel_value (if (1::int) = 1 then 14 else 31) expansion_50 =
      (Returned (Some 50), expansion_50)"
    by (simp add: get_channel_value_def expansion_50_fields)
  have g3: "get_channel_value (if (1::int) = 1 then 14 else 31) expansion_50_unplugged =
      (Returned (Some 50), expansion_50_unplugged)"
    by (simp add: get_channel_value_def expansion_50_unplugged_fields)
  show ?thesis
    using gradual_drawing_manual_precondition [of "''forward_manual''" 1 fresh 200 100 0]
      gradual_drawing_manual_precondition [of "''forward_manual''" 1 expansion_50 200 100 50]
      gradual_drawing_manual_precondition
        [of "''forward_manual''" 1 expansion_50_unplugged 200 100 50]
      g1 g2 g3
    by (auto simp: expansion_50_fields expansion_50_invariant fresh_fields
        expansion_50_unplugged_fields)
qed

text \<open>
  C3 as stated fails twice. With channel 14 at 0 the call without a manual value prints
  that the manual value is required, not that channel 14 must be set. And after
  \<^verbatim>\<open>disconnect()\<close>, with channel 14 at 50 and the manual value 100 within the ceiling,
  \<^verbatim>\<open>set_channel\<close> returns at the guard of \<^verbatim>\<open>send_dmx_packet\<close> and channel 15 still
  holds 0.
\<close>

theorem gradual_drawing_manual_counterexample:
  "get_channel_value 14 fresh = (Returned (Some 0), fresh) \<and>
   set_gradual_drawing 1 ''forward_manual'' None fresh =
     (Returned (), say (ManualRequired ''forward_manual'') fresh) \<and>
   console (snd (set_gradual_drawing 1 ''forward_manual'' None fresh)) =
     [ManualRequired ''forward_manual''] \<and>
   get_channel_value 14 expansion_50_unplugged = (Returned (Some 50), expansion_50_unplugged) \<and>
   set_gradual_drawing 1 ''forward_manual'' (Some 100) expansion_50_unplugged =
     (Returned (), say NotConnectedError expansion_50_unplugged) \<and>
   current_state (snd (set_gradual_drawing 1 ''forward_manual'' (Some 100) expansion_50_unplugged))
     ! 14 = 0"
  by (simp add: set_gradual_drawing_def expansion_check_def gradual_drawing_modes_def
      get_channel_value_def set_channel_disconnected fresh_fields expansion_50_unplugged_fields)

subsection \<open>The invariant of the channel array\<close>

text \<open>
  C9. Every operation of the controller preserves the invariant of the channel array:
  from a state where the array has N elements, each in 0..255, every call leaves N and
  the length of the array as they were, and every element in 0..255. This holds for a
  call that returns and for a call that raises.
\<close>

theorem operations_preserve_channel_invariant:
  assumes "channel_invariant s"
  shows "channel_invariant (snd (perform c s)) \<and>
         num_channels (snd (perform c s)) = num_channels s \<and>
         length (current_state (snd (perform c s))) = length (current_state s)"
  using stable_perform [OF stable_invariant [of "num_channels s" "length (current_state s)"], of s c]
    assms
  by simp

theorem operations_preserve_channel_invariant_witness:
  "channel_invariant fresh \<and>
   channel_invariant (snd (perform (SetPatternZooming 2 ''zoom_in'' (Some 145)) fresh)) \<and>
   num_channels (snd (perform (SetPatternZooming 2 ''zoom_in'' (Some 145)) fresh)) = 32 \<and>
   length (current_state (snd (perform (SetPatternZooming 2 ''zoom_in'' (Some 145)) fresh))) = 32"
  using operations_preserve_channel_invariant [of fresh "SetPatternZooming 2 ''zoom_in'' (Some 145)"]
  by (simp add: fresh_fields)

subsection \<open>Without a serial handle\<close>

text \<open>
  C10. On a controller without a serial handle no operation changes the channel array;
  \<^verbatim>\<open>set_channel\<close> prints that the controller is not connected and returns; and
  \<^verbatim>\<open>get_channel_value\<close> after \<^verbatim>\<open>set_channel\<close> returns what it returned before, so
  that the round trip holds only with a handle. With the invariant and at least 32
  channels every call returns.
\<close>

theorem disconnected_leaves_array_unchanged:
  assumes "serial_port s = None"
  shows "current_state (snd (perform c s)) = current_state s \<and>
         set_channel ch v s = (Returned (), say NotConnectedError s) \<and>
         fst (get_channel_value ch (snd (set_channel ch v s))) = fst (get_channel_value ch s) \<and>
         (channel_invariant s \<and> 32 \<le> num_channels s \<longrightarrow>
            (\<exists>r. fst (perform c s) = Returned r))"
  using stable_perform [OF stable_disconnected [of "current_state s"], of s c] assms
    perform_returns_disconnected [of s c]
  by (simp add: set_channel_disconnected get_channel_value_def)

theorem disconnected_leaves_array_unchanged_witness:
  "serial_port unplugged = None \<and>
   current_state (snd (perform (SetLampMode ''dynamic_sound'') unplugged)) = current_state unplugged \<and>
   set_channel 5 200 unplugged = (Returned (), say NotConnectedError unplugged) \<and>
   fst (get_channel_value 5 (snd (set_channel 5 200 unplugged))) = Returned (Some 0) \<and>
   (channel_invariant unplugged \<and> 32 \<le> num_channels unplugged) \<and>
   (\<exists>r. fst (perform (SetLampMode ''dynamic_sound'') unplugged) = Returned r)"
  using disconnected_leaves_array_unchanged [of unplugged "SetLampMode ''dynamic_sound''" 5 200]
  by (simp add: unplugged_fields get_channel_value_def)

end
